theory Spec2Isabelle
  imports Complex_Main "HOL-Library.Multiset"
begin

section \<open>JavaScript values used by the dashboard\<close>

text \<open>
  A JavaScript number is NaN, one of the two infinities, or a finite double. Every finite
  double is a real number and the comparison operators on doubles agree with the order of
  the reals, so finite numbers are carried as reals. The two zeros are both \<open>Fin 0\<close>.
  Arithmetic on finite numbers is exact in this model (no rounding, no overflow to an
  infinity); the special values follow IEEE 754.
\<close>

datatype jsnum = NaN | NegInf | Fin real | PosInf

text \<open>\<open>a < b\<close> on numbers: false as soon as one side is NaN.\<close>

fun js_lt :: "jsnum \<Rightarrow> jsnum \<Rightarrow> bool" where
  "js_lt NaN _ = False"
| "js_lt _ NaN = False"
| "js_lt (Fin x) (Fin y) = (x < y)"
| "js_lt NegInf NegInf = False"
| "js_lt NegInf _ = True"
| "js_lt _ NegInf = False"
| "js_lt PosInf _ = False"
| "js_lt _ PosInf = True"

definition js_gt :: "jsnum \<Rightarrow> jsnum \<Rightarrow> bool" where
  "js_gt a b = js_lt b a"

definition js_le :: "jsnum \<Rightarrow> jsnum \<Rightarrow> bool" where
  "js_le a b = (a \<noteq> NaN \<and> b \<noteq> NaN \<and> \<not> js_lt b a)"

fun js_neg :: "jsnum \<Rightarrow> jsnum" where
  "js_neg NaN = NaN"
| "js_neg NegInf = PosInf"
| "js_neg PosInf = NegInf"
| "js_neg (Fin x) = Fin (- x)"

fun js_add :: "jsnum \<Rightarrow> jsnum \<Rightarrow> jsnum" where
  "js_add NaN _ = NaN"
| "js_add _ NaN = NaN"
| "js_add (Fin x) (Fin y) = Fin (x + y)"
| "js_add PosInf NegInf = NaN"
| "js_add NegInf PosInf = NaN"
| "js_add PosInf _ = PosInf"
| "js_add NegInf _ = NegInf"
| "js_add _ PosInf = PosInf"
| "js_add _ NegInf = NegInf"

definition js_sub :: "jsnum \<Rightarrow> jsnum \<Rightarrow> jsnum" where
  "js_sub a b = js_add a (js_neg b)"

text \<open>The sign of a number that is not NaN: \<open>-1\<close>, \<open>0\<close> or \<open>1\<close>.\<close>

fun js_sign :: "jsnum \<Rightarrow> real" where
  "js_sign (Fin x) = sgn x"
| "js_sign PosInf = 1"
| "js_sign NegInf = - 1"
| "js_sign NaN = 0"

definition signed_inf :: "real \<Rightarrow> jsnum" where
  "signed_inf s = (if s = 0 then NaN else if 0 < s then PosInf else NegInf)"

fun js_mul :: "jsnum \<Rightarrow> jsnum \<Rightarrow> jsnum" where
  "js_mul NaN _ = NaN"
| "js_mul _ NaN = NaN"
| "js_mul (Fin x) (Fin y) = Fin (x * y)"
| "js_mul a b = signed_inf (js_sign a * js_sign b)"

text \<open>
  \<open>a / b\<close>. JavaScript does not raise on a zero divisor: a finite nonzero number divided
  by zero is an infinity and \<open>0 / 0\<close> is NaN (the sign of the zero is not tracked here).
\<close>

fun js_div :: "jsnum \<Rightarrow> jsnum \<Rightarrow> jsnum" where
  "js_div NaN _ = NaN"
| "js_div _ NaN = NaN"
| "js_div (Fin x) (Fin y) = (if y = 0 then signed_inf (sgn x) else Fin (x / y))"
| "js_div (Fin x) _ = Fin 0"
| "js_div a (Fin y) = signed_inf (js_sign a * (if y < 0 then - 1 else 1))"
| "js_div _ _ = NaN"

text \<open>
  The values a field of a reading can hold when it reaches the dashboard's helpers: a number,
  \<open>null\<close>, or \<open>undefined\<close> (a missing field, or the result of \<open>previousData?.x\<close> when there
  is no previous reading).
\<close>

datatype jsval = Undefined | Null | Number jsnum

text \<open>\<open>ToBoolean\<close>: \<open>undefined\<close>, \<open>null\<close>, both zeros and NaN are falsy.\<close>

fun truthy :: "jsval \<Rightarrow> bool" where
  "truthy Undefined = False"
| "truthy Null = False"
| "truthy (Number NaN) = False"
| "truthy (Number (Fin x)) = (x \<noteq> 0)"
| "truthy (Number _) = True"

text \<open>\<open>ToNumber\<close>, applied by the arithmetic operators to their operands.\<close>

fun to_number :: "jsval \<Rightarrow> jsnum" where
  "to_number Undefined = NaN"
| "to_number Null = Fin 0"
| "to_number (Number n) = n"

text \<open>\<open>v === 0\<close>: a number equal to zero; NaN is equal to nothing.\<close>

fun strict_eq_zero :: "jsval \<Rightarrow> bool" where
  "strict_eq_zero (Number (Fin x)) = (x = 0)"
| "strict_eq_zero _ = False"

text \<open>The relational operators convert their operands with \<open>ToNumber\<close>.\<close>

definition val_gt :: "jsval \<Rightarrow> jsnum \<Rightarrow> bool" where
  "val_gt v c = js_gt (to_number v) c"

definition val_lt :: "jsval \<Rightarrow> jsnum \<Rightarrow> bool" where
  "val_lt v c = js_lt (to_number v) c"


section \<open>Dashboard helpers: metric bands and trend\<close>

text \<open>
  \<open>getMetricStatus(type, value)\<close> of \<open>Dashboard.js\<close>: a \<open>switch\<close> on the metric name, each
  case a chain of two comparisons tried in order; any other name gives \<open>'normal'\<close>.
\<close>

definition getMetricStatus :: "string \<Rightarrow> jsval \<Rightarrow> string" where
  "getMetricStatus type v =
     (if type = ''temperature'' then
        (if val_gt v (Fin 100) then ''critical''
         else if val_gt v (Fin 80) then ''warning''
         else ''good'')
      else if type = ''soc'' then
        (if val_lt v (Fin 15) then ''critical''
         else if val_lt v (Fin 30) then ''warning''
         else ''good'')
      else if type = ''voltage'' then
        (if val_lt v (Fin 180) then ''critical''
         else if val_lt v (Fin 200) then ''warning''
         else ''good'')
      else ''normal'')"

text \<open>
  \<open>calculateTrend(current, previous)\<close> of \<open>Dashboard.js\<close>. So that a division by zero is
  visible in the result, the division of the model is checked: a zero divisor gives
  \<open>Inl DivisionByZero\<close> where JavaScript would give an infinity or NaN.
\<close>

datatype arith_event = DivisionByZero

definition checked_div :: "jsnum \<Rightarrow> jsnum \<Rightarrow> arith_event + jsnum" where
  "checked_div a b = (if b = Fin 0 then Inl DivisionByZero else Inr (js_div a b))"

definition calculateTrend :: "jsval \<Rightarrow> jsval \<Rightarrow> arith_event + jsnum" where
  "calculateTrend current previous =
     (if \<not> truthy previous \<or> strict_eq_zero previous then Inr (Fin 0)
      else (case checked_div (js_sub (to_number current) (to_number previous))
                             (to_number previous) of
              Inl e \<Rightarrow> Inl e
            | Inr q \<Rightarrow> Inr (js_mul q (Fin 100))))"

text \<open>The expression \<open>((current - previous) / previous) * 100\<close> on its own, unguarded.\<close>

definition trend_formula :: "jsval \<Rightarrow> jsval \<Rightarrow> jsnum" where
  "trend_formula current previous =
     js_mul (js_div (js_sub (to_number current) (to_number previous)) (to_number previous))
            (Fin 100)"



section \<open>Session store (\<open>authStore.js\<close>)\<close>

text \<open>
  The user object of a session. \<open>mockLogin\<close> builds exactly these five fields; a user object
  sent by the backend is read only through its \<open>role\<close>, which is \<open>None\<close> when the property
  is \<open>undefined\<close>.
\<close>

record user_rec =
  user_id :: int
  username :: string
  email :: string
  role :: "string option"
  is_active :: bool

text \<open>The five data fields of the store; \<open>None\<close> is \<open>null\<close>.\<close>

record auth_state =
  user :: "user_rec option"
  token :: "string option"
  isAuthenticated :: bool
  isLoading :: bool
  error :: "string option"

definition initial_auth :: auth_state where
  "initial_auth =
     \<lparr>user = None, token = None, isAuthenticated = False, isLoading = False, error = None\<rparr>"

text \<open>
  What the request of \<open>login\<close> can come to: \<open>fetch\<close> or \<open>response.json()\<close> throws an
  error with a message, the response is not \<open>ok\<close>, or the body is read and its \<open>user\<close> and
  \<open>access_token\<close> properties (either may be missing) are stored.
\<close>

datatype login_response =
    Throws string
  | NotOk
  | Accepted "user_rec option" "string option"

datatype login_result = Success | Failure string

text \<open>The first \<open>set\<close> of \<open>login\<close>, the state while the request is awaited.\<close>

definition login_begin :: "auth_state \<Rightarrow> auth_state" where
  "login_begin s = s\<lparr>isLoading := True, error := None\<rparr>"

text \<open>The \<open>catch\<close> branch of \<open>login\<close>: only \<open>isLoading\<close> and \<open>error\<close> are written.\<close>

definition login_catch :: "string \<Rightarrow> auth_state \<Rightarrow> login_result \<times> auth_state" where
  "login_catch msg s = (Failure msg, s\<lparr>isLoading := False, error := Some msg\<rparr>)"

definition login_with :: "login_response \<Rightarrow> auth_state \<Rightarrow> login_result \<times> auth_state" where
  "login_with resp s =
     (let s1 = login_begin s in
      case resp of
        Throws msg \<Rightarrow> login_catch msg s1
      | NotOk \<Rightarrow> login_catch ''Invalid credentials'' s1
      | Accepted u t \<Rightarrow>
          (Success,
           s1\<lparr>user := u, token := t, isAuthenticated := True, isLoading := False,
              error := None\<rparr>))"

text \<open>
  \<open>login(username, password)\<close>: the backend is outside the repository and is a parameter,
  a function from the credentials to the outcome of the request.
\<close>

definition login ::
  "(string \<Rightarrow> string \<Rightarrow> login_response) \<Rightarrow> string \<Rightarrow> string \<Rightarrow> auth_state
     \<Rightarrow> login_result \<times> auth_state" where
  "login backend uname password s = login_with (backend uname password) s"

definition logout :: "auth_state \<Rightarrow> auth_state" where
  "logout s = s\<lparr>user := None, token := None, isAuthenticated := False, error := None\<rparr>"

definition clearError :: "auth_state \<Rightarrow> auth_state" where
  "clearError s = s\<lparr>error := None\<rparr>"

text \<open>\<open>mockLogin(role = 'operator')\<close>: the default applies when the argument is \<open>undefined\<close>.\<close>

definition mockLogin :: "string option \<Rightarrow> auth_state \<Rightarrow> auth_state" where
  "mockLogin arg s =
     (let r = (case arg of None \<Rightarrow> ''operator'' | Some x \<Rightarrow> x);
          mockUser = \<lparr>user_id = 1,
                      username = (if r = ''admin'' then ''admin'' else ''operator''),
                      email = r @ ''@microgrid.com'',
                      role = Some r,
                      is_active = True\<rparr>
      in s\<lparr>user := Some mockUser, token := Some ''mock-jwt-token'', isAuthenticated := True,
           isLoading := False, error := None\<rparr>)"

text \<open>A session without user, token and authenticated flag.\<close>

definition logged_out :: "auth_state \<Rightarrow> bool" where
  "logged_out s = (user s = None \<and> token s = None \<and> \<not> isAuthenticated s)"

subsection \<open>The store over time\<close>

text \<open>
  The \<open>set\<close> that \<open>login\<close> performs when its request settles, applied to the state of
  that moment.
\<close>

definition login_settle :: "login_response \<Rightarrow> auth_state \<Rightarrow> auth_state" where
  "login_settle resp s =
     (case resp of
        Throws msg \<Rightarrow> snd (login_catch msg s)
      | NotOk \<Rightarrow> snd (login_catch ''Invalid credentials'' s)
      | Accepted u t \<Rightarrow>
          s\<lparr>user := u, token := t, isAuthenticated := True, isLoading := False,
            error := None\<rparr>)"

text \<open>
  Everything that writes the store: the two \<open>set\<close> calls of \<open>login\<close> (which other actions
  may come between), \<open>logout\<close>, \<open>clearError\<close>, \<open>mockLogin\<close>, and a reload, after which
  \<open>persist\<close> restores \<open>user\<close>, \<open>token\<close> and \<open>isAuthenticated\<close> and the other two fields
  start from their initial values.
\<close>

datatype store_action =
    LoginBegin
  | LoginSettle login_response
  | Logout
  | ClearError
  | MockLogin "string option"
  | Reload

fun apply_action :: "store_action \<Rightarrow> auth_state \<Rightarrow> auth_state" where
  "apply_action LoginBegin s = login_begin s"
| "apply_action (LoginSettle resp) s = login_settle resp s"
| "apply_action Logout s = logout s"
| "apply_action ClearError s = clearError s"
| "apply_action (MockLogin arg) s = mockLogin arg s"
| "apply_action Reload s = s\<lparr>isLoading := False, error := None\<rparr>"

fun run_actions :: "store_action list \<Rightarrow> auth_state \<Rightarrow> auth_state" where
  "run_actions [] s = s"
| "run_actions (a # as) s = run_actions as (apply_action a s)"

subsection \<open>The role check\<close>

text \<open>
  \<open>roleHierarchy\<close> is an object literal, so \<open>roleHierarchy[k]\<close> finds the two own properties
  and, through the prototype chain, the members of \<open>Object.prototype\<close>; for any other key it
  is \<open>undefined\<close>.
\<close>

definition object_prototype_names :: "string list" where
  "object_prototype_names =
     [''constructor'', ''hasOwnProperty'', ''isPrototypeOf'', ''propertyIsEnumerable'',
      ''toLocaleString'', ''toString'', ''valueOf'', ''__defineGetter__'',
      ''__defineSetter__'', ''__lookupGetter__'', ''__lookupSetter__'', ''__proto__'']"

datatype prop_value = Missing | Rank nat | Inherited string

definition roleHierarchy :: "string \<Rightarrow> prop_value" where
  "roleHierarchy k =
     (if k = ''operator'' then Rank 1
      else if k = ''admin'' then Rank 2
      else if k \<in> set object_prototype_names then Inherited k
      else Missing)"

text \<open>The property key of \<open>user.role\<close>: \<open>undefined\<close> becomes the string \<open>"undefined"\<close>.\<close>

definition property_key :: "string option \<Rightarrow> string" where
  "property_key r = (case r of None \<Rightarrow> ''undefined'' | Some k \<Rightarrow> k)"

text \<open>
  The string an inherited member converts to when it is compared: \<open>__proto__\<close> is
  \<open>Object.prototype\<close> itself, \<open>constructor\<close> is the function \<open>Object\<close>, every other member
  is the built-in function of its own name. None of the strings reads as a number.
\<close>

definition primitive_string :: "string \<Rightarrow> string" where
  "primitive_string k =
     (if k = ''__proto__'' then ''[object Object]''
      else ''function '' @ (if k = ''constructor'' then ''Object'' else k)
             @ ''() { [native code] }'')"

text \<open>\<open>a < b\<close> on strings: by code units, a proper prefix is smaller.\<close>

fun str_lt :: "string \<Rightarrow> string \<Rightarrow> bool" where
  "str_lt _ [] = False"
| "str_lt [] (y # ys) = True"
| "str_lt (x # xs) (y # ys) =
     ((of_char x :: nat) < of_char y \<or> (x = y \<and> str_lt xs ys))"

text \<open>
  \<open>a >= b\<close> on what the lookup returns. Two numbers compare as numbers. Two inherited members
  both convert to strings and compare as strings. In every other pairing one side converts
  to NaN (from \<open>undefined\<close>, or from a string that is not a number) and the result is false.
\<close>

fun js_ge :: "prop_value \<Rightarrow> prop_value \<Rightarrow> bool" where
  "js_ge (Rank a) (Rank b) = (b \<le> a)"
| "js_ge (Inherited a) (Inherited b) = (\<not> str_lt (primitive_string a) (primitive_string b))"
| "js_ge _ _ = False"

definition hasRole :: "auth_state \<Rightarrow> string \<Rightarrow> bool" where
  "hasRole s requiredRole =
     (case user s of
        None \<Rightarrow> False
      | Some u \<Rightarrow> js_ge (roleHierarchy (property_key (role u))) (roleHierarchy requiredRole))"

text \<open>
  The hierarchy as the specification words it: a rank for \<open>operator\<close> and for \<open>admin\<close> and
  for nothing else, and a comparison that holds only between two ranks.
\<close>

definition rank_of :: "string \<Rightarrow> nat option" where
  "rank_of k = (if k = ''operator'' then Some 1 else if k = ''admin'' then Some 2 else None)"

definition rank_at_least :: "string option \<Rightarrow> string \<Rightarrow> bool" where
  "rank_at_least r required =
     (case r of
        None \<Rightarrow> False
      | Some k \<Rightarrow>
          (case (rank_of k, rank_of required) of
             (Some a, Some b) \<Rightarrow> b \<le> a
           | _ \<Rightarrow> False))"


section \<open>Responses and the pull cycle of \<open>Dashboard.js\<close>\<close>

text \<open>A response body as the HTTP client hands it over.\<close>

datatype json =
    JNull
  | JBool bool
  | JNumber real
  | JString string
  | JArray "json list"
  | JObject "(string \<times> json) list"

record axios_response =
  data :: json
  status :: nat

datatype 'a promise = Rejected string | Fulfilled 'a

fun isArray :: "json \<Rightarrow> bool" where
  "isArray (JArray _) = True"
| "isArray _ = False"

text \<open>\<open>ToBoolean\<close> on a body: \<open>null\<close>, \<open>false\<close>, zero and the empty string are falsy.\<close>

fun json_truthy :: "json \<Rightarrow> bool" where
  "json_truthy JNull = False"
| "json_truthy (JBool b) = b"
| "json_truthy (JNumber x) = (x \<noteq> 0)"
| "json_truthy (JString s) = (s \<noteq> [])"
| "json_truthy _ = True"

record dashboard_state =
  sensorData :: json
  latestData :: json
  alerts :: json
  systemStatus :: json
  analytics :: json
  loading :: bool
  error_d :: "string option"
  lastUpdate :: "nat option"

definition initial_dashboard :: dashboard_state where
  "initial_dashboard =
     \<lparr>sensorData = JArray [], latestData = JNull, alerts = JArray [], systemStatus = JNull,
      analytics = JNull, loading = True, error_d = None, lastUpdate = None\<rparr>"

definition connection_error :: string where
  "connection_error = ''Failed to fetch data. Please ensure the backend is running.''"

text \<open>
  \<open>fetchData\<close> of \<open>Dashboard.js\<close>, one pull cycle, given how each of the five requests
  settles and the clock reading \<open>now\<close>. \<open>Promise.all\<close> fulfils only when all five do; a
  rejection of any of them enters the \<open>catch\<close> branch, where the reason is only logged.
  The \<open>finally\<close> branch runs in both cases.
\<close>

definition fetchData ::
  "nat \<Rightarrow> axios_response promise \<Rightarrow> axios_response promise \<Rightarrow> axios_response promise
     \<Rightarrow> axios_response promise \<Rightarrow> axios_response promise \<Rightarrow> dashboard_state
     \<Rightarrow> dashboard_state" where
  "fetchData now sensorP latestP alertsP statusP analyticsP s =
     (let s1 = s\<lparr>error_d := None\<rparr>;
          s2 = (case (sensorP, latestP, alertsP, statusP, analyticsP) of
                  (Fulfilled sensorResponse, Fulfilled latestResponse, Fulfilled alertsResponse,
                   Fulfilled statusResponse, Fulfilled analyticsResponse) \<Rightarrow>
                     s1\<lparr>sensorData := data sensorResponse,
                        latestData := data latestResponse,
                        alerts := data alertsResponse,
                        systemStatus := data statusResponse,
                        analytics := data analyticsResponse,
                        lastUpdate := Some now\<rparr>
                | _ \<Rightarrow> s1\<lparr>error_d := Some connection_error\<rparr>)
      in s2\<lparr>loading := False\<rparr>)"

fun rejects :: "'a promise \<Rightarrow> bool" where
  "rejects (Rejected _) = True"
| "rejects (Fulfilled _) = False"


section \<open>The alert pages' fetch sites\<close>

text \<open>\<open>Array.isArray(v) ? v : []\<close>.\<close>

fun array_or_empty :: "json \<Rightarrow> json list" where
  "array_or_empty (JArray xs) = xs"
| "array_or_empty _ = []"

text \<open>
  \<open>AlertsPage.fetchAlerts\<close> and \<open>AlertsPageDebug.fetchAlerts\<close>: the value of
  \<open>response.data || response\<close> is the body when the body is truthy and the response object
  (which is not an array) otherwise.
\<close>

record alerts_page_state =
  ap_alerts :: "json list"
  ap_loading :: bool

definition AlertsPage_fetchAlerts ::
  "axios_response promise \<Rightarrow> alerts_page_state \<Rightarrow> alerts_page_state" where
  "AlertsPage_fetchAlerts p s =
     (case p of
        Fulfilled response \<Rightarrow>
          (let alertsData = (if json_truthy (data response) then Inl (data response)
                             else Inr response)
           in s\<lparr>ap_alerts := (case alertsData of Inl d \<Rightarrow> array_or_empty d | Inr _ \<Rightarrow> []),
                ap_loading := False\<rparr>)
      | Rejected _ \<Rightarrow> s\<lparr>ap_alerts := [], ap_loading := False\<rparr>)"

record alerts_debug_state =
  apd_alerts :: "json list"
  apd_loading :: bool
  apd_error :: "string option"

definition AlertsPageDebug_fetchAlerts ::
  "axios_response promise \<Rightarrow> alerts_debug_state \<Rightarrow> alerts_debug_state" where
  "AlertsPageDebug_fetchAlerts p s =
     (let s1 = s\<lparr>apd_loading := True, apd_error := None\<rparr> in
      case p of
        Fulfilled response \<Rightarrow>
          (let alertsData = (if json_truthy (data response) then Inl (data response)
                             else Inr response)
           in s1\<lparr>apd_alerts := (case alertsData of Inl d \<Rightarrow> array_or_empty d | Inr _ \<Rightarrow> []),
                 apd_loading := False\<rparr>)
      | Rejected msg \<Rightarrow> s1\<lparr>apd_error := Some msg, apd_alerts := [], apd_loading := False\<rparr>)"

text \<open>
  \<open>AlertsPageSimple.fetchAlerts\<close> uses \<open>fetch\<close>: the request fails with a message, or a
  response arrives with its \<open>ok\<close> flag, its status (as printed), its status text, and a
  body that \<open>response.json()\<close> parses (\<open>Inr\<close>) or rejects with a message (\<open>Inl\<close>).
  Reading \<open>data.length\<close> for the log throws on \<open>null\<close>.
\<close>

datatype fetch_outcome =
    NetworkError string
  | HttpResponse bool string string "string + json"

record alerts_simple_state =
  aps_alerts :: "json list"
  aps_loading :: bool
  aps_error :: "string option"

definition AlertsPageSimple_catch :: "string \<Rightarrow> alerts_simple_state \<Rightarrow> alerts_simple_state" where
  "AlertsPageSimple_catch msg s = s\<lparr>aps_error := Some msg, aps_alerts := [], aps_loading := False\<rparr>"

definition AlertsPageSimple_fetchAlerts ::
  "fetch_outcome \<Rightarrow> alerts_simple_state \<Rightarrow> alerts_simple_state" where
  "AlertsPageSimple_fetchAlerts out s =
     (case out of
        NetworkError msg \<Rightarrow> AlertsPageSimple_catch msg s
      | HttpResponse ok status_digits statusText body \<Rightarrow>
          if \<not> ok
          then AlertsPageSimple_catch (''HTTP '' @ status_digits @ '': '' @ statusText) s
          else (case body of
                  Inl msg \<Rightarrow> AlertsPageSimple_catch msg s
                | Inr d \<Rightarrow>
                    if d = JNull
                    then AlertsPageSimple_catch
                           ''Cannot read properties of null (reading 'length')'' s
                    else s\<lparr>aps_alerts := array_or_empty d, aps_error := None,
                           aps_loading := False\<rparr>))"



section \<open>The alert list of \<open>AlertsPage\<close>\<close>

record alert =
  alert_id :: nat
  alert_type :: string
  severity :: string
  message :: string
  alert_value :: "real option"
  threshold :: "real option"
  timestamp :: string
  resolved :: bool

text \<open>\<open>toLowerCase\<close> on the ASCII letters; every other character is left as it is.\<close>

definition lower_char :: "char \<Rightarrow> char" where
  "lower_char c =
     (let n = (of_char c :: nat) in if 65 \<le> n \<and> n \<le> 90 then char_of (n + 32) else c)"

definition toLowerCase :: "string \<Rightarrow> string" where
  "toLowerCase s = map lower_char s"

fun startsWith :: "string \<Rightarrow> string \<Rightarrow> bool" where
  "startsWith _ [] = True"
| "startsWith [] (_ # _) = False"
| "startsWith (c # cs) (d # ds) = (c = d \<and> startsWith cs ds)"

text \<open>\<open>s.includes(t)\<close>: \<open>t\<close> occurs in \<open>s\<close> at some position.\<close>

fun includes_str :: "string \<Rightarrow> string \<Rightarrow> bool" where
  "includes_str [] t = (t = [])"
| "includes_str (c # cs) t = (startsWith (c # cs) t \<or> includes_str cs t)"

text \<open>The callback of \<open>.filter\<close>: the status filter first, then the search term.\<close>

definition keeps :: "string \<Rightarrow> string \<Rightarrow> alert \<Rightarrow> bool" where
  "keeps filter_s searchTerm a =
     (if filter_s = ''active'' \<and> resolved a then False
      else if filter_s = ''resolved'' \<and> \<not> resolved a then False
      else if searchTerm \<noteq> [] then
        (let searchLower = toLowerCase searchTerm in
           includes_str (toLowerCase (message a)) searchLower
           \<or> includes_str (toLowerCase (alert_type a)) searchLower
           \<or> includes_str (toLowerCase (severity a)) searchLower)
      else True)"

text \<open>
  \<open>severityOrder[k]\<close> as a number: the four own properties, and NaN for every other key
  (\<open>undefined\<close> and the inherited members all convert to NaN).
\<close>

definition severityOrder :: "string \<Rightarrow> jsnum" where
  "severityOrder k =
     (if k = ''critical'' then Fin 4
      else if k = ''high'' then Fin 3
      else if k = ''medium'' then Fin 2
      else if k = ''low'' then Fin 1
      else NaN)"

text \<open>
  The callback of \<open>.sort\<close>. \<open>Date\<close> stands for \<open>new Date(str)\<close> read as a number: the time
  value of the string, NaN when the string is not a date.
\<close>

definition compareAlerts :: "(string \<Rightarrow> jsnum) \<Rightarrow> string \<Rightarrow> alert \<Rightarrow> alert \<Rightarrow> jsnum" where
  "compareAlerts Date sortBy a b =
     (if sortBy = ''newest'' then js_sub (Date (timestamp b)) (Date (timestamp a))
      else if sortBy = ''oldest'' then js_sub (Date (timestamp a)) (Date (timestamp b))
      else if sortBy = ''severity'' then js_sub (severityOrder (severity b))
                                               (severityOrder (severity a))
      else Fin 0)"

text \<open>
  \<open>Array.prototype.sort\<close> with a callback, as a stable insertion sort: an element moves
  behind the elements it compares greater than (a positive result); a NaN result counts
  as zero. For a callback that orders the elements consistently every stable sort gives
  this list; for any callback the result is a rearrangement of the input.
\<close>

fun insert_by :: "('a \<Rightarrow> 'a \<Rightarrow> jsnum) \<Rightarrow> 'a \<Rightarrow> 'a list \<Rightarrow> 'a list" where
  "insert_by cmp x [] = [x]"
| "insert_by cmp x (y # ys) =
     (if js_gt (cmp x y) (Fin 0) then y # insert_by cmp x ys else x # y # ys)"

definition sort_by :: "('a \<Rightarrow> 'a \<Rightarrow> jsnum) \<Rightarrow> 'a list \<Rightarrow> 'a list" where
  "sort_by cmp xs = foldr (insert_by cmp) xs []"

definition filteredAndSortedAlerts ::
  "(string \<Rightarrow> jsnum) \<Rightarrow> alert list \<Rightarrow> string \<Rightarrow> string \<Rightarrow> string \<Rightarrow> alert list" where
  "filteredAndSortedAlerts Date alerts_s filter_s searchTerm sortBy =
     sort_by (compareAlerts Date sortBy) (filter (keeps filter_s searchTerm) alerts_s)"

text \<open>A string contains a term case-insensitively: the lowered term occurs in the lowered string.\<close>

definition contains_ci :: "string \<Rightarrow> string \<Rightarrow> bool" where
  "contains_ci s t = (\<exists>before after. toLowerCase s = before @ toLowerCase t @ after)"


section \<open>The push channel of \<open>ComprehensiveDashboard\<close>\<close>

text \<open>
  Reading \<open>message.type\<close> on a parsed message: a \<open>TypeError\<close> on \<open>null\<close>, the property of an
  object when it has one, \<open>undefined\<close> (\<open>None\<close>) in every other case.
\<close>

datatype js_exception = TypeError

fun message_type :: "json \<Rightarrow> js_exception + json option" where
  "message_type JNull = Inl TypeError"
| "message_type (JObject props) = Inr (map_of props ''type'')"
| "message_type _ = Inr None"

datatype ws_effect = RunFetchData | ConsoleError

text \<open>
  \<open>websocket.onmessage\<close>: what the handler does for the text \<open>event.data\<close>. \<open>JSON_parse\<close> is
  the platform's parser, \<open>None\<close> when it throws. Both exceptions end in the \<open>catch\<close> branch,
  which logs.
\<close>

definition onmessage :: "(string \<Rightarrow> json option) \<Rightarrow> string \<Rightarrow> ws_effect list" where
  "onmessage JSON_parse event_data =
     (case JSON_parse event_data of
        None \<Rightarrow> [ConsoleError]
      | Some msg \<Rightarrow>
          (case message_type msg of
             Inl _ \<Rightarrow> [ConsoleError]
           | Inr t \<Rightarrow>
               if t = Some (JString ''sensor_data'') \<or> t = Some (JString ''alert'')
               then [RunFetchData]
               else []))"

text \<open>
  The effect of the handler on the component's state, for a pull body \<open>pull\<close> (the component's
  \<open>fetchData\<close> with the backend's answers of that moment): logging leaves the state alone.
\<close>

fun run_effect :: "('s \<Rightarrow> 's) \<Rightarrow> ws_effect \<Rightarrow> 's \<Rightarrow> 's" where
  "run_effect pull RunFetchData s = pull s"
| "run_effect pull ConsoleError s = s"

definition handle_message ::
  "(string \<Rightarrow> json option) \<Rightarrow> ('s \<Rightarrow> 's) \<Rightarrow> string \<Rightarrow> 's \<Rightarrow> 's" where
  "handle_message JSON_parse pull event_data s =
     foldl (\<lambda>st e. run_effect pull e st) s (onmessage JSON_parse event_data)"

text \<open>The type tag of a message, when it parses to an object that carries one.\<close>

definition parsed_type :: "(string \<Rightarrow> json option) \<Rightarrow> string \<Rightarrow> json option" where
  "parsed_type JSON_parse event_data =
     (case JSON_parse event_data of
        Some (JObject props) \<Rightarrow> map_of props ''type''
      | _ \<Rightarrow> None)"


section \<open>Sample data\<close>

text \<open>Concrete backends, parsers, clocks and alerts on which the results below are run.\<close>

definition reject_all :: "string \<Rightarrow> string \<Rightarrow> login_response" where
  "reject_all uname password = NotOk"

definition alice :: user_rec where
  "alice = \<lparr>user_id = 7, username = ''alice'', email = ''alice@microgrid.com'',
            role = Some ''operator'', is_active = True\<rparr>"

definition accept_alice :: "string \<Rightarrow> string \<Rightarrow> login_response" where
  "accept_alice uname password =
     (if uname = ''alice'' \<and> password = ''secret'' then Accepted (Some alice) (Some ''tok-1'')
      else NotOk)"

definition guest :: user_rec where
  "guest = \<lparr>user_id = 9, username = ''guest'', email = ''guest@microgrid.com'',
            role = None, is_active = True\<rparr>"

definition ok_response :: "json \<Rightarrow> axios_response" where
  "ok_response body = \<lparr>data = body, status = 200\<rparr>"

definition sample_parse :: "string \<Rightarrow> json option" where
  "sample_parse event_data =
     (if event_data = ''alert frame''
      then Some (JObject [(''type'', JString ''alert''), (''severity'', JString ''high'')])
      else if event_data = ''heartbeat frame''
      then Some (JObject [(''type'', JString ''heartbeat'')])
      else if event_data = ''null''
      then Some JNull
      else None)"

definition no_dates :: "string \<Rightarrow> jsnum" where
  "no_dates str = NaN"

definition alert_hot :: alert where
  "alert_hot =
     \<lparr>alert_id = 1, alert_type = ''temperature'', severity = ''high'',
      message = ''Temperature HIGH'', alert_value = Some 105, threshold = Some 100,
      timestamp = ''2024-01-01T10:00:00'', resolved = False\<rparr>"

definition alert_low :: alert where
  "alert_low =
     \<lparr>alert_id = 2, alert_type = ''soc'', severity = ''critical'',
      message = ''Battery low'', alert_value = Some 10, threshold = Some 15,
      timestamp = ''2024-01-01T11:00:00'', resolved = True\<rparr>"



section \<open>Results on the metric bands\<close>

lemma js_gt_Fin: "js_gt n (Fin c) = (n = PosInf \<or> (\<exists>x. n = Fin x \<and> c < x))"
  by (cases n) (simp_all add: js_gt_def)

lemma js_lt_Fin: "js_lt n (Fin c) = (n = NegInf \<or> (\<exists>x. n = Fin x \<and> x < c))"
  by (cases n) simp_all

lemma js_le_Fin_right: "js_le n (Fin c) = (n = NegInf \<or> (\<exists>x. n = Fin x \<and> x \<le> c))"
  by (cases n) (auto simp: js_le_def)

lemma js_le_Fin_left: "js_le (Fin c) n = (n = PosInf \<or> (\<exists>x. n = Fin x \<and> c \<le> x))"
  by (cases n) (auto simp: js_le_def)

lemma temperature_bands:
  "getMetricStatus ''temperature'' (Number v) =
     (if js_gt v (Fin 100) then ''critical''
      else if js_gt v (Fin 80) \<and> js_le v (Fin 100) then ''warning''
      else ''good'')"
  by (cases v) (auto simp: getMetricStatus_def val_gt_def js_gt_Fin js_le_Fin_right)

lemma soc_bands:
  "getMetricStatus ''soc'' (Number v) =
     (if js_lt v (Fin 15) then ''critical''
      else if js_le (Fin 15) v \<and> js_lt v (Fin 30) then ''warning''
      else ''good'')"
  by (cases v) (auto simp: getMetricStatus_def val_lt_def js_lt_Fin js_le_Fin_left)

lemma voltage_bands:
  "getMetricStatus ''voltage'' (Number v) =
     (if js_lt v (Fin 180) then ''critical''
      else if js_le (Fin 180) v \<and> js_lt v (Fin 200) then ''warning''
      else ''good'')"
  by (cases v) (auto simp: getMetricStatus_def val_lt_def js_lt_Fin js_le_Fin_left)

text \<open>
  C4. For every number \<open>v\<close> (NaN and the infinities included), \<open>getMetricStatus\<close> gives for
  a temperature \<open>critical\<close> exactly when \<open>v > 100\<close>, \<open>warning\<close> exactly when
  \<open>80 < v \<le> 100\<close>, and \<open>good\<close> otherwise; for the state of charge \<open>critical\<close> exactly when
  \<open>v < 15\<close>, \<open>warning\<close> exactly when \<open>15 \<le> v < 30\<close>, and \<open>good\<close> otherwise; for a voltage
  \<open>critical\<close> exactly when \<open>v < 180\<close>, \<open>warning\<close> exactly when \<open>180 \<le> v < 200\<close>, and
  \<open>good\<close> otherwise. The named readings fall where the specification puts them: temperature
  101, 85, 50, 80 and 100, state of charge 12, 25 and 50.
\<close>

theorem getMetricStatus_bands:
  "((getMetricStatus ''temperature'' (Number v) = ''critical'') = js_gt v (Fin 100))
   \<and> ((getMetricStatus ''temperature'' (Number v) = ''warning'')
        = (js_gt v (Fin 80) \<and> js_le v (Fin 100)))
   \<and> ((getMetricStatus ''temperature'' (Number v) = ''good'')
        = (\<not> js_gt v (Fin 100) \<and> \<not> (js_gt v (Fin 80) \<and> js_le v (Fin 100))))
   \<and> ((getMetricStatus ''soc'' (Number v) = ''critical'') = js_lt v (Fin 15))
   \<and> ((getMetricStatus ''soc'' (Number v) = ''warning'')
        = (js_le (Fin 15) v \<and> js_lt v (Fin 30)))
   \<and> ((getMetricStatus ''soc'' (Number v) = ''good'')
        = (\<not> js_lt v (Fin 15) \<and> \<not> (js_le (Fin 15) v \<and> js_lt v (Fin 30))))
   \<and> ((getMetricStatus ''voltage'' (Number v) = ''critical'') = js_lt v (Fin 180))
   \<and> ((getMetricStatus ''voltage'' (Number v) = ''warning'')
        = (js_le (Fin 180) v \<and> js_lt v (Fin 200)))
   \<and> ((getMetricStatus ''voltage'' (Number v) = ''good'')
        = (\<not> js_lt v (Fin 180) \<and> \<not> (js_le (Fin 180) v \<and> js_lt v (Fin 200))))
   \<and> getMetricStatus ''temperature'' (Number (Fin 101)) = ''critical''
   \<and> getMetricStatus ''temperature'' (Number (Fin 85)) = ''warning''
   \<and> getMetricStatus ''temperature'' (Number (Fin 50)) = ''good''
   \<and> getMetricStatus ''temperature'' (Number (Fin 80)) = ''good''
   \<and> getMetricStatus ''temperature'' (Number (Fin 100)) = ''warning''
   \<and> getMetricStatus ''soc'' (Number (Fin 12)) = ''critical''
   \<and> getMetricStatus ''soc'' (Number (Fin 25)) = ''warning''
   \<and> getMetricStatus ''soc'' (Number (Fin 50)) = ''good''"
proof -
  have t: "js_gt v (Fin 100) \<Longrightarrow> js_gt v (Fin 80) \<and> \<not> js_le v (Fin 100)"
    by (auto simp: js_gt_Fin js_le_Fin_right)
  have s: "js_lt v (Fin 15) \<Longrightarrow> js_lt v (Fin 30) \<and> \<not> js_le (Fin 15) v"
    by (auto simp: js_lt_Fin js_le_Fin_left)
  have u: "js_lt v (Fin 180) \<Longrightarrow> js_lt v (Fin 200) \<and> \<not> js_le (Fin 180) v"
    by (auto simp: js_lt_Fin js_le_Fin_left)
  have t1: "(getMetricStatus ''temperature'' (Number v) = ''critical'') = js_gt v (Fin 100)"
    by (simp add: temperature_bands)
  have t2: "(getMetricStatus ''temperature'' (Number v) = ''warning'')
              = (js_gt v (Fin 80) \<and> js_le v (Fin 100))"
    using t by (auto simp: temperature_bands)
  have t3: "(getMetricStatus ''temperature'' (Number v) = ''good'')
              = (\<not> js_gt v (Fin 100) \<and> \<not> (js_gt v (Fin 80) \<and> js_le v (Fin 100)))"
    by (simp add: temperature_bands)
  have s1: "(getMetricStatus ''soc'' (Number v) = ''critical'') = js_lt v (Fin 15)"
    by (simp add: soc_bands)
  have s2: "(getMetricStatus ''soc'' (Number v) = ''warning'')
              = (js_le (Fin 15) v \<and> js_lt v (Fin 30))"
    using s by (auto simp: soc_bands)
  have s3: "(getMetricStatus ''soc'' (Number v) = ''good'')
              = (\<not> js_lt v (Fin 15) \<and> \<not> (js_le (Fin 15) v \<and> js_lt v (Fin 30)))"
    by (simp add: soc_bands)
  have v1: "(getMetricStatus ''voltage'' (Number v) = ''critical'') = js_lt v (Fin 180)"
    by (simp add: voltage_bands)
  have v2: "(getMetricStatus ''voltage'' (Number v) = ''warning'')
              = (js_le (Fin 180) v \<and> js_lt v (Fin 200))"
    using u by (auto simp: voltage_bands)
  have v3: "(getMetricStatus ''voltage'' (Number v) = ''good'')
              = (\<not> js_lt v (Fin 180) \<and> \<not> (js_le (Fin 180) v \<and> js_lt v (Fin 200)))"
    by (simp add: voltage_bands)
  have ex: "getMetricStatus ''temperature'' (Number (Fin 101)) = ''critical''"
    "getMetricStatus ''temperature'' (Number (Fin 85)) = ''warning''"
    "getMetricStatus ''temperature'' (Number (Fin 50)) = ''good''"
    "getMetricStatus ''temperature'' (Number (Fin 80)) = ''good''"
    "getMetricStatus ''temperature'' (Number (Fin 100)) = ''warning''"
    "getMetricStatus ''soc'' (Number (Fin 12)) = ''critical''"
    "getMetricStatus ''soc'' (Number (Fin 25)) = ''warning''"
    "getMetricStatus ''soc'' (Number (Fin 50)) = ''good''"
    by (simp_all add: getMetricStatus_def val_gt_def val_lt_def js_gt_def)
  from t1 t2 t3 s1 s2 s3 v1 v2 v3 ex show ?thesis
    by (intro conjI)
qed

text \<open>The bands at a voltage of 190 and at NaN, read off the theorem.\<close>

theorem getMetricStatus_bands_witness:
  "getMetricStatus ''voltage'' (Number (Fin 190)) = ''warning''
   \<and> getMetricStatus ''temperature'' (Number NaN) = ''good''"
  using getMetricStatus_bands [of "Fin 190"] getMetricStatus_bands [of NaN]
  by (simp add: js_le_def js_gt_def)


section \<open>Results on the trend\<close>

text \<open>
  C8. \<open>calculateTrend\<close> is called with fields of readings parsed from JSON, which are
  numbers or absent and never NaN. For every such pair of inputs it returns 0 whenever
  \<open>previous\<close> is absent (\<open>null\<close> or \<open>undefined\<close>) or equals 0, and otherwise returns
  \<open>((current - previous) / previous) * 100\<close>. The division is reached only with a divisor
  that is not zero: for every input the function returns a number and never divides by
  zero.
\<close>

theorem calculateTrend_guarded:
  "(previous \<noteq> Number NaN \<longrightarrow>
      calculateTrend current previous =
        (if previous = Undefined \<or> previous = Null \<or> strict_eq_zero previous
         then Inr (Fin 0)
         else Inr (trend_formula current previous)))
   \<and> (\<exists>r. calculateTrend current previous = Inr r)
   \<and> calculateTrend current previous \<noteq> Inl DivisionByZero"
proof (cases previous)
  case (Number n)
  then show ?thesis
    by (cases n) (simp_all add: calculateTrend_def checked_div_def trend_formula_def)
qed (simp_all add: calculateTrend_def)

text \<open>From 100 to 110 is a trend of 10; no previous reading, or a previous reading of 0, is 0.\<close>

theorem calculateTrend_guarded_witness:
  "Number (Fin 100) \<noteq> Number NaN
   \<and> calculateTrend (Number (Fin 110)) (Number (Fin 100)) = Inr (Fin 10)
   \<and> Undefined \<noteq> Number NaN
   \<and> calculateTrend (Number (Fin 110)) Undefined = Inr (Fin 0)
   \<and> Number (Fin 0) \<noteq> Number NaN
   \<and> calculateTrend (Number (Fin 110)) (Number (Fin 0)) = Inr (Fin 0)"
  using calculateTrend_guarded [of "Number (Fin 100)" "Number (Fin 110)"]
    calculateTrend_guarded [of Undefined "Number (Fin 110)"]
    calculateTrend_guarded [of "Number (Fin 0)" "Number (Fin 110)"]
  by (simp add: trend_formula_def js_sub_def)


section \<open>Results on the session store\<close>

lemma undefined_not_inherited: "''undefined'' \<notin> set object_prototype_names"
  by (simp add: object_prototype_names_def)

lemma js_ge_admin:
  "js_ge (roleHierarchy k) (roleHierarchy ''admin'') = (k = ''admin'')"
  by (auto simp: roleHierarchy_def)

lemma js_ge_operator:
  "js_ge (roleHierarchy k) (roleHierarchy ''operator'') = (k = ''operator'' \<or> k = ''admin'')"
  by (auto simp: roleHierarchy_def)

lemma property_key_eq:
  "(property_key r = ''admin'') = (r = Some ''admin'')"
  "(property_key r = ''operator'') = (r = Some ''operator'')"
  by (cases r; simp add: property_key_def)+

lemma str_lt_irrefl: "\<not> str_lt x x"
  by (induction x) simp_all

lemma hasRole_rank_general:
  "requiredRole \<notin> set object_prototype_names
     \<or> (\<forall>u. user s = Some u \<longrightarrow> property_key (role u) \<notin> set object_prototype_names) \<Longrightarrow>
   hasRole s requiredRole = (\<exists>u. user s = Some u \<and> rank_at_least (role u) requiredRole)"
proof (cases "user s")
  case None
  then show ?thesis by (simp add: hasRole_def)
next
  case (Some u)
  assume outside: "requiredRole \<notin> set object_prototype_names
     \<or> (\<forall>u. user s = Some u \<longrightarrow> property_key (role u) \<notin> set object_prototype_names)"
  show ?thesis
  proof (cases "role u")
    case None
    with Some show ?thesis
      by (simp add: hasRole_def property_key_def roleHierarchy_def rank_at_least_def
          undefined_not_inherited)
  next
    case (Some k)
    with \<open>user s = Some u\<close> outside
    have "requiredRole \<notin> set object_prototype_names \<or> k \<notin> set object_prototype_names"
      by (simp add: property_key_def)
    then have "js_ge (roleHierarchy k) (roleHierarchy requiredRole)
                 = (case (rank_of k, rank_of requiredRole) of
                      (Some a, Some b) \<Rightarrow> b \<le> a
                    | _ \<Rightarrow> False)"
      by (auto simp: roleHierarchy_def rank_of_def)
    with \<open>user s = Some u\<close> Some show ?thesis
      by (simp add: hasRole_def property_key_def rank_at_least_def)
  qed
qed

text \<open>
  C3, as the code has it. For every session state and every required value, \<open>hasRole\<close> is
  true exactly when a user is present and the rank of the user's role under
  \<open>{operator: 1, admin: 2}\<close> is at least the rank of the required role, except when the
  user's role and the required value are both names of members that \<open>roleHierarchy\<close>
  inherits from \<open>Object.prototype\<close>. In particular \<open>hasRole('admin')\<close> is true exactly for a
  user whose role is \<open>admin\<close>, \<open>hasRole('operator')\<close> exactly for a user whose role is
  \<open>operator\<close> or \<open>admin\<close>, and \<open>hasRole\<close> is false when there is no user or the user's role
  is undefined.
\<close>

theorem hasRole_rank:
  "(requiredRole \<notin> set object_prototype_names
      \<or> (\<forall>u. user s = Some u \<longrightarrow> property_key (role u) \<notin> set object_prototype_names) \<longrightarrow>
      hasRole s requiredRole
        = (\<exists>u. user s = Some u \<and> rank_at_least (role u) requiredRole))
   \<and> hasRole s ''admin'' = (\<exists>u. user s = Some u \<and> role u = Some ''admin'')
   \<and> hasRole s ''operator''
        = (\<exists>u. user s = Some u \<and> (role u = Some ''operator'' \<or> role u = Some ''admin''))
   \<and> (user s = None \<longrightarrow> \<not> hasRole s requiredRole)
   \<and> (\<forall>u. user s = Some u \<and> role u = None \<longrightarrow> \<not> hasRole s requiredRole)"
proof -
  have adm: "hasRole s ''admin'' = (\<exists>u. user s = Some u \<and> role u = Some ''admin'')"
    by (cases "user s") (simp_all add: hasRole_def js_ge_admin property_key_eq)
  have opr: "hasRole s ''operator''
        = (\<exists>u. user s = Some u \<and> (role u = Some ''operator'' \<or> role u = Some ''admin''))"
    by (cases "user s") (simp_all add: hasRole_def js_ge_operator property_key_eq)
  have gen: "requiredRole \<notin> set object_prototype_names
      \<or> (\<forall>u. user s = Some u \<longrightarrow> property_key (role u) \<notin> set object_prototype_names) \<longrightarrow>
      hasRole s requiredRole
        = (\<exists>u. user s = Some u \<and> rank_at_least (role u) requiredRole)"
    using hasRole_rank_general [of requiredRole s] by blast
  have nouser: "user s = None \<longrightarrow> \<not> hasRole s requiredRole"
    by (simp add: hasRole_def)
  have norole: "\<forall>u. user s = Some u \<and> role u = None \<longrightarrow> \<not> hasRole s requiredRole"
    by (simp add: hasRole_def property_key_def roleHierarchy_def undefined_not_inherited)
  from gen adm opr nouser norole show ?thesis
    by (intro conjI)
qed

text \<open>
  An operator passes the operator check, fails the admin check and fails a check for the
  inherited name \<open>toString\<close>; the empty session and a user without a role fail the operator
  check.
\<close>

theorem hasRole_rank_witness:
  "''operator'' \<notin> set object_prototype_names
   \<and> hasRole (mockLogin (Some ''operator'') initial_auth) ''operator''
   \<and> \<not> hasRole (mockLogin (Some ''operator'') initial_auth) ''admin''
   \<and> \<not> hasRole (mockLogin (Some ''operator'') initial_auth) ''toString''
   \<and> user initial_auth = None
   \<and> \<not> hasRole initial_auth ''operator''
   \<and> user (initial_auth\<lparr>user := Some guest\<rparr>) = Some guest \<and> role guest = None
   \<and> \<not> hasRole (initial_auth\<lparr>user := Some guest\<rparr>) ''operator''"
proof -
  let ?s = "mockLogin (Some ''operator'') initial_auth"
  let ?g = "initial_auth\<lparr>user := Some guest\<rparr>"
  have u: "user ?s = Some \<lparr>user_id = 1, username = ''operator'',
             email = ''operator@microgrid.com'', role = Some ''operator'', is_active = True\<rparr>"
    by (simp add: mockLogin_def initial_auth_def Let_def)
  have own: "''operator'' \<notin> set object_prototype_names"
    by (simp add: object_prototype_names_def)
  have opr: "hasRole ?s ''operator''" and adm: "\<not> hasRole ?s ''admin''"
    using hasRole_rank [of "''operator''" ?s] u own
    by (simp_all add: rank_at_least_def rank_of_def)
  have inh: "\<not> hasRole ?s ''toString''"
    using hasRole_rank [of "''toString''" ?s] u own
    by (simp add: rank_at_least_def rank_of_def property_key_def)
  have none: "user initial_auth = None"
    by (simp add: initial_auth_def)
  have empty: "\<not> hasRole initial_auth ''operator''"
    using hasRole_rank [of "''operator''" initial_auth] none by simp
  have g: "user ?g = Some guest" "role guest = None"
    by (simp_all add: guest_def)
  have norole: "\<not> hasRole ?g ''operator''"
    using hasRole_rank [of "''operator''" ?g] g by (simp add: rank_at_least_def)
  from own opr adm inh none empty g norole show ?thesis
    by simp
qed

text \<open>
  A user whose role is the string \<open>toString\<close>, asked for the role \<open>toString\<close>: the name has
  no rank under \<open>{operator: 1, admin: 2}\<close>, yet both lookups find the inherited function,
  which compares \<open>>=\<close> to itself, and \<open>hasRole\<close> is true.
\<close>

theorem hasRole_rank_counterexample:
  "user (mockLogin (Some ''toString'') initial_auth)
     = Some \<lparr>user_id = 1, username = ''operator'', email = ''toString@microgrid.com'',
             role = Some ''toString'', is_active = True\<rparr>
   \<and> \<not> rank_at_least (Some ''toString'') ''toString''
   \<and> hasRole (mockLogin (Some ''toString'') initial_auth) ''toString''"
  by (simp add: hasRole_def mockLogin_def initial_auth_def property_key_def roleHierarchy_def
      object_prototype_names_def str_lt_irrefl Let_def rank_at_least_def rank_of_def)

text \<open>
  C9, as the code has it. For every session with a user present and every required value
  outside \<open>{operator, admin}\<close>, \<open>hasRole\<close> is false, provided the user's role and the required
  value are not both names of members that \<open>roleHierarchy\<close> inherits from \<open>Object.prototype\<close>.
  For an ordinary unknown name the lookup is \<open>undefined\<close> and the comparison is false.
\<close>

theorem hasRole_unknown_required:
  "user s = Some u \<Longrightarrow> requiredRole \<notin> {''operator'', ''admin''} \<Longrightarrow>
   property_key (role u) \<notin> set object_prototype_names
     \<or> requiredRole \<notin> set object_prototype_names \<Longrightarrow>
   \<not> hasRole s requiredRole"
  by (auto simp: hasRole_def roleHierarchy_def)

text \<open>An admin asked for the role \<open>toString\<close>, which is no role of the hierarchy.\<close>

theorem hasRole_unknown_required_witness:
  "user (mockLogin (Some ''admin'') initial_auth) \<noteq> None
   \<and> ''toString'' \<notin> {''operator'', ''admin''}
   \<and> \<not> hasRole (mockLogin (Some ''admin'') initial_auth) ''toString''"
proof -
  let ?u = "\<lparr>user_id = 1, username = ''admin'', email = ''admin@microgrid.com'',
             role = Some ''admin'', is_active = True\<rparr>"
  have present: "user (mockLogin (Some ''admin'') initial_auth) = Some ?u"
    by (simp add: mockLogin_def initial_auth_def Let_def)
  have outside: "''toString'' \<notin> {''operator'', ''admin''}"
    by simp
  have own: "property_key (role ?u) \<notin> set object_prototype_names
             \<or> ''toString'' \<notin> set object_prototype_names"
    by (simp add: property_key_def object_prototype_names_def)
  from hasRole_unknown_required [OF present outside own] present outside
  show ?thesis by simp
qed

text \<open>
  A user whose role is the string \<open>constructor\<close>, asked for the role \<open>constructor\<close>: both
  lookups find the inherited \<open>Object\<close> function, which compares \<open>>=\<close> to itself, and the
  check passes although \<open>constructor\<close> is outside \<open>{operator, admin}\<close>.
\<close>

theorem hasRole_inherited_counterexample:
  "user (mockLogin (Some ''constructor'') initial_auth) \<noteq> None
   \<and> ''constructor'' \<notin> {''operator'', ''admin''}
   \<and> hasRole (mockLogin (Some ''constructor'') initial_auth) ''constructor''"
  by (simp add: hasRole_def mockLogin_def initial_auth_def property_key_def roleHierarchy_def
      object_prototype_names_def str_lt_irrefl Let_def)

text \<open>
  C6, as the code has it. \<open>logout\<close> sets \<open>user\<close> and \<open>token\<close> to \<open>null\<close>, \<open>isAuthenticated\<close> to
  false and \<open>error\<close> to \<open>null\<close>, in one synchronous \<open>set\<close>; it does not write \<open>isLoading\<close>,
  which keeps the value it had.
\<close>

theorem logout_fields:
  "logout s =
     \<lparr>user = None, token = None, isAuthenticated = False, isLoading = isLoading s,
      error = None\<rparr>"
  by (simp add: logout_def)

text \<open>
  A logout while a \<open>login\<close> request is awaited: \<open>isLoading\<close> is still true afterwards, so the
  store is not back at its initial values.
\<close>

theorem logout_keeps_isLoading_counterexample:
  "isLoading (logout (login_begin initial_auth)) \<noteq> isLoading initial_auth
   \<and> logout (login_begin initial_auth) \<noteq> initial_auth"
  by (simp add: logout_def login_begin_def initial_auth_def)

lemma mockLogin_absorbs: "mockLogin arg (logout (mockLogin arg s)) = mockLogin arg s"
  by (simp add: mockLogin_def logout_def Let_def)

lemma login_with_round_trip:
  "fst (login_with r s) = Success \<or> logged_out s \<Longrightarrow>
   login_with r (logout (snd (login_with r s))) = login_with r s"
  by (cases r)
    (auto simp: login_with_def login_catch_def login_begin_def logout_def logged_out_def)

lemma login_with_settle: "snd (login_with r s) = login_settle r (login_begin s)"
  by (cases r) (simp_all add: login_with_def login_settle_def)

text \<open>
  In every state the store can be in, a session that is not authenticated holds no user
  and no token: each action keeps this.
\<close>

lemma apply_action_keeps_logged_out:
  "(\<not> isAuthenticated s \<longrightarrow> logged_out s) \<Longrightarrow>
   \<not> isAuthenticated (apply_action a s) \<longrightarrow> logged_out (apply_action a s)"
proof (cases a)
  case (LoginSettle resp)
  assume "\<not> isAuthenticated s \<longrightarrow> logged_out s"
  with LoginSettle show ?thesis
    by (cases resp) (auto simp: login_settle_def login_catch_def logged_out_def)
qed (auto simp: login_begin_def logout_def clearError_def mockLogin_def logged_out_def Let_def)

lemma run_actions_keeps_logged_out:
  "(\<not> isAuthenticated s \<longrightarrow> logged_out s) \<Longrightarrow>
   \<not> isAuthenticated (run_actions acts s) \<longrightarrow> logged_out (run_actions acts s)"
proof (induction acts arbitrary: s)
  case Nil
  then show ?case by simp
next
  case (Cons a acts)
  from Cons.prems have "\<not> isAuthenticated (apply_action a s) \<longrightarrow> logged_out (apply_action a s)"
    by (rule apply_action_keeps_logged_out)
  from Cons.IH [OF this] show ?case by simp
qed

lemma unauthenticated_is_logged_out:
  "\<not> isAuthenticated (run_actions acts initial_auth) \<Longrightarrow>
   logged_out (run_actions acts initial_auth)"
  using run_actions_keeps_logged_out [of initial_auth acts]
  by (simp add: logged_out_def initial_auth_def)

text \<open>
  C7. For every fixed login input, the session after login, then logout, then login again
  is identical, in all five fields and in the returned result, to the session after the
  first login alone. For \<open>mockLogin\<close> with the same role this holds from every state. For
  \<open>login\<close> with the same credentials (the backend answering the repeated request alike) it
  holds from every state in which the application offers the login form, that is from
  every state the store can reach that is not authenticated, whether the backend accepts
  or rejects; when the backend accepts it holds from every state whatsoever.
\<close>

theorem login_round_trip:
  "mockLogin arg (logout (mockLogin arg s)) = mockLogin arg s
   \<and> (fst (login backend uname password s) = Success \<or> logged_out s \<longrightarrow>
        login backend uname password (logout (snd (login backend uname password s)))
          = login backend uname password s)
   \<and> (\<not> isAuthenticated (run_actions acts initial_auth) \<longrightarrow>
        login backend uname password
          (logout (snd (login backend uname password (run_actions acts initial_auth))))
          = login backend uname password (run_actions acts initial_auth))"
  using login_with_round_trip [of "backend uname password" s]
    login_with_round_trip [of "backend uname password" "run_actions acts initial_auth"]
    unauthenticated_is_logged_out [of acts]
  by (simp add: login_def mockLogin_absorbs)

text \<open>
  An accepted login on top of an admin session; a rejected login on the empty session; a
  rejected login after an admin has signed in and out again.
\<close>

theorem login_round_trip_witness:
  "fst (login accept_alice ''alice'' ''secret'' (mockLogin (Some ''admin'') initial_auth))
     = Success
   \<and> login accept_alice ''alice'' ''secret''
       (logout (snd (login accept_alice ''alice'' ''secret''
                       (mockLogin (Some ''admin'') initial_auth))))
     = login accept_alice ''alice'' ''secret'' (mockLogin (Some ''admin'') initial_auth)
   \<and> logged_out initial_auth
   \<and> login reject_all ''alice'' ''wrong''
       (logout (snd (login reject_all ''alice'' ''wrong'' initial_auth)))
     = login reject_all ''alice'' ''wrong'' initial_auth
   \<and> \<not> isAuthenticated (run_actions [MockLogin (Some ''admin''), Logout] initial_auth)
   \<and> login reject_all ''alice'' ''wrong''
       (logout (snd (login reject_all ''alice'' ''wrong''
                       (run_actions [MockLogin (Some ''admin''), Logout] initial_auth))))
     = login reject_all ''alice'' ''wrong''
         (run_actions [MockLogin (Some ''admin''), Logout] initial_auth)"
proof -
  have ok: "fst (login accept_alice ''alice'' ''secret''
                   (mockLogin (Some ''admin'') initial_auth)) = Success"
    by (simp add: login_def accept_alice_def login_with_def)
  have out: "logged_out initial_auth"
    by (simp add: logged_out_def initial_auth_def)
  have una: "\<not> isAuthenticated (run_actions [MockLogin (Some ''admin''), Logout] initial_auth)"
    by (simp add: logout_def)
  from login_round_trip [of None "mockLogin (Some ''admin'') initial_auth" accept_alice
         "''alice''" "''secret''" "[]"]
       login_round_trip [of None initial_auth reject_all "''alice''" "''wrong''"
         "[MockLogin (Some ''admin''), Logout]"]
       ok out una
  show ?thesis by simp
qed


section \<open>Results on the pull cycle\<close>

lemma fetchData_all_fulfilled:
  "fetchData now (Fulfilled a) (Fulfilled b) (Fulfilled c) (Fulfilled d) (Fulfilled e) s =
     s\<lparr>error_d := None, sensorData := data a, latestData := data b, alerts := data c,
       systemStatus := data d, analytics := data e, lastUpdate := Some now,
       loading := False\<rparr>"
  by (simp add: fetchData_def)

lemma fetchData_some_rejects:
  "rejects sensorP \<or> rejects latestP \<or> rejects alertsP \<or> rejects statusP
     \<or> rejects analyticsP \<Longrightarrow>
   fetchData now sensorP latestP alertsP statusP analyticsP s =
     s\<lparr>error_d := Some connection_error, loading := False\<rparr>"
  by (cases sensorP; cases latestP; cases alertsP; cases statusP; cases analyticsP)
     (simp_all add: fetchData_def)

text \<open>
  C1. In a pull cycle of the Dashboard, if any of the five requests (sensor history, latest
  reading, alerts, system status, analytics) rejects, then \<open>sensorData\<close>, \<open>latestData\<close>,
  \<open>alerts\<close>, \<open>systemStatus\<close>, \<open>analytics\<close> and \<open>lastUpdate\<close> all keep their values and the
  one connection-error message is set; if none rejects, all five have fulfilled and every
  one of the six entities is set from the responses and the clock.
\<close>

theorem fetchData_all_or_nothing:
  "(rejects sensorP \<or> rejects latestP \<or> rejects alertsP \<or> rejects statusP
      \<or> rejects analyticsP \<longrightarrow>
      (let s' = fetchData now sensorP latestP alertsP statusP analyticsP s in
         sensorData s' = sensorData s \<and> latestData s' = latestData s
         \<and> alerts s' = alerts s \<and> systemStatus s' = systemStatus s
         \<and> analytics s' = analytics s \<and> lastUpdate s' = lastUpdate s
         \<and> error_d s' = Some connection_error))
   \<and> (\<not> (rejects sensorP \<or> rejects latestP \<or> rejects alertsP \<or> rejects statusP
           \<or> rejects analyticsP) \<longrightarrow>
      (\<exists>a b c d e.
         sensorP = Fulfilled a \<and> latestP = Fulfilled b \<and> alertsP = Fulfilled c
         \<and> statusP = Fulfilled d \<and> analyticsP = Fulfilled e
         \<and> (let s' = fetchData now sensorP latestP alertsP statusP analyticsP s in
              sensorData s' = data a \<and> latestData s' = data b \<and> alerts s' = data c
              \<and> systemStatus s' = data d \<and> analytics s' = data e
              \<and> lastUpdate s' = Some now \<and> error_d s' = None)))"
proof (intro conjI impI)
  assume "rejects sensorP \<or> rejects latestP \<or> rejects alertsP \<or> rejects statusP
      \<or> rejects analyticsP"
  from fetchData_some_rejects [OF this]
  show "let s' = fetchData now sensorP latestP alertsP statusP analyticsP s in
         sensorData s' = sensorData s \<and> latestData s' = latestData s
         \<and> alerts s' = alerts s \<and> systemStatus s' = systemStatus s
         \<and> analytics s' = analytics s \<and> lastUpdate s' = lastUpdate s
         \<and> error_d s' = Some connection_error"
    by simp
next
  assume none: "\<not> (rejects sensorP \<or> rejects latestP \<or> rejects alertsP \<or> rejects statusP
           \<or> rejects analyticsP)"
  then obtain a b c d e where
    "sensorP = Fulfilled a" "latestP = Fulfilled b" "alertsP = Fulfilled c"
    "statusP = Fulfilled d" "analyticsP = Fulfilled e"
    by (cases sensorP; cases latestP; cases alertsP; cases statusP; cases analyticsP) simp_all
  then show "\<exists>a b c d e.
         sensorP = Fulfilled a \<and> latestP = Fulfilled b \<and> alertsP = Fulfilled c
         \<and> statusP = Fulfilled d \<and> analyticsP = Fulfilled e
         \<and> (let s' = fetchData now sensorP latestP alertsP statusP analyticsP s in
              sensorData s' = data a \<and> latestData s' = data b \<and> alerts s' = data c
              \<and> systemStatus s' = data d \<and> analytics s' = data e
              \<and> lastUpdate s' = Some now \<and> error_d s' = None)"
    by (simp add: fetchData_all_fulfilled)
qed

text \<open>
  A cycle on the initial state in which only the analytics request rejects, and one in
  which all five fulfil.
\<close>

theorem fetchData_all_or_nothing_witness:
  "rejects (Rejected ''timeout of 10000ms exceeded'' :: axios_response promise)
   \<and> alerts (fetchData 42 (Fulfilled (ok_response (JArray [JNumber 1])))
                          (Fulfilled (ok_response (JNumber 2)))
                          (Fulfilled (ok_response (JArray [JNumber 3])))
                          (Fulfilled (ok_response (JNumber 4)))
                          (Rejected ''timeout of 10000ms exceeded'')
                          initial_dashboard) = JArray []
   \<and> lastUpdate (fetchData 42 (Fulfilled (ok_response (JArray [JNumber 1])))
                          (Fulfilled (ok_response (JNumber 2)))
                          (Fulfilled (ok_response (JArray [JNumber 3])))
                          (Fulfilled (ok_response (JNumber 4)))
                          (Rejected ''timeout of 10000ms exceeded'')
                          initial_dashboard) = None
   \<and> error_d (fetchData 42 (Fulfilled (ok_response (JArray [JNumber 1])))
                          (Fulfilled (ok_response (JNumber 2)))
                          (Fulfilled (ok_response (JArray [JNumber 3])))
                          (Fulfilled (ok_response (JNumber 4)))
                          (Rejected ''timeout of 10000ms exceeded'')
                          initial_dashboard) = Some connection_error
   \<and> alerts (fetchData 42 (Fulfilled (ok_response (JArray [JNumber 1])))
                          (Fulfilled (ok_response (JNumber 2)))
                          (Fulfilled (ok_response (JArray [JNumber 3])))
                          (Fulfilled (ok_response (JNumber 4)))
                          (Fulfilled (ok_response (JNumber 5)))
                          initial_dashboard) = JArray [JNumber 3]
   \<and> lastUpdate (fetchData 42 (Fulfilled (ok_response (JArray [JNumber 1])))
                          (Fulfilled (ok_response (JNumber 2)))
                          (Fulfilled (ok_response (JArray [JNumber 3])))
                          (Fulfilled (ok_response (JNumber 4)))
                          (Fulfilled (ok_response (JNumber 5)))
                          initial_dashboard) = Some 42"
  using fetchData_all_or_nothing
          [of "Fulfilled (ok_response (JArray [JNumber 1]))"
              "Fulfilled (ok_response (JNumber 2))"
              "Fulfilled (ok_response (JArray [JNumber 3]))"
              "Fulfilled (ok_response (JNumber 4))"
              "Rejected ''timeout of 10000ms exceeded''" 42 initial_dashboard]
        fetchData_all_or_nothing
          [of "Fulfilled (ok_response (JArray [JNumber 1]))"
              "Fulfilled (ok_response (JNumber 2))"
              "Fulfilled (ok_response (JArray [JNumber 3]))"
              "Fulfilled (ok_response (JNumber 4))"
              "Fulfilled (ok_response (JNumber 5))" 42 initial_dashboard]
  by (simp add: Let_def initial_dashboard_def ok_response_def)


section \<open>Results on the alert fetch sites\<close>

lemma AlertsPage_coerces:
  "\<not> isArray (data response) \<Longrightarrow>
   ap_alerts (AlertsPage_fetchAlerts (Fulfilled response) s) = []"
  by (cases "data response") (simp_all add: AlertsPage_fetchAlerts_def)

lemma AlertsPageDebug_coerces:
  "\<not> isArray (data response) \<Longrightarrow>
   apd_alerts (AlertsPageDebug_fetchAlerts (Fulfilled response) s) = []"
  by (cases "data response") (simp_all add: AlertsPageDebug_fetchAlerts_def)

lemma AlertsPageSimple_coerces:
  "\<not> isArray d \<Longrightarrow>
   aps_alerts (AlertsPageSimple_fetchAlerts (HttpResponse ok st txt (Inr d)) s) = []"
  by (cases d) (simp_all add: AlertsPageSimple_fetchAlerts_def AlertsPageSimple_catch_def)

text \<open>
  C5 does not hold of the Dashboard. The three alert pages store \<open>[]\<close> for a body that is
  not a list (the three lemmas above), but \<open>fetchData\<close> of \<open>Dashboard.js\<close> stores the body
  of the alerts response as it is: when the alerts endpoint answers with the object
  \<open>{alerts: []}\<close> and the other four requests succeed, the \<open>alerts\<close> entity of the Dashboard
  is that object, not a list.
\<close>

theorem dashboard_stores_non_array_alerts:
  "alerts (fetchData 42 (Fulfilled (ok_response (JArray [])))
                        (Fulfilled (ok_response JNull))
                        (Fulfilled (ok_response (JObject [(''alerts'', JArray [])])))
                        (Fulfilled (ok_response JNull))
                        (Fulfilled (ok_response JNull))
                        initial_dashboard)
     = JObject [(''alerts'', JArray [])]
   \<and> \<not> isArray (alerts (fetchData 42 (Fulfilled (ok_response (JArray [])))
                        (Fulfilled (ok_response JNull))
                        (Fulfilled (ok_response (JObject [(''alerts'', JArray [])])))
                        (Fulfilled (ok_response JNull))
                        (Fulfilled (ok_response JNull))
                        initial_dashboard))"
  by (simp add: fetchData_all_fulfilled ok_response_def)


section \<open>Results on the push channel\<close>

lemma onmessage_cases:
  "onmessage P d =
     (if parsed_type P d = Some (JString ''sensor_data'')
         \<or> parsed_type P d = Some (JString ''alert'')
      then [RunFetchData]
      else if P d = None \<or> P d = Some JNull then [ConsoleError] else [])"
proof (cases "P d")
  case None
  then show ?thesis by (simp add: onmessage_def parsed_type_def)
next
  case (Some m)
  then show ?thesis
    by (cases m) (simp_all add: onmessage_def parsed_type_def)
qed

text \<open>
  C2. For every incoming message: if it parses and its \<open>type\<close> is \<open>sensor_data\<close> or \<open>alert\<close>,
  the handler runs \<open>fetchData\<close> exactly once and does nothing else, so the state after the
  message is the state after one pull, whatever else the payload holds; for every other
  message (another type, no type, not an object, not JSON) the handler runs no fetch and
  the state is unchanged.
\<close>

theorem push_is_refetch_signal:
  "(parsed_type JSON_parse event_data = Some (JString ''sensor_data'')
      \<or> parsed_type JSON_parse event_data = Some (JString ''alert'') \<longrightarrow>
      onmessage JSON_parse event_data = [RunFetchData]
      \<and> handle_message JSON_parse pull event_data s = pull s)
   \<and> (\<not> (parsed_type JSON_parse event_data = Some (JString ''sensor_data'')
          \<or> parsed_type JSON_parse event_data = Some (JString ''alert'')) \<longrightarrow>
      RunFetchData \<notin> set (onmessage JSON_parse event_data)
      \<and> handle_message JSON_parse pull event_data s = s)"
  by (simp add: handle_message_def onmessage_cases)

text \<open>
  With a counter of pulls as the state: an alert frame adds one pull, a heartbeat frame and
  a frame that is not JSON add none.
\<close>

theorem push_is_refetch_signal_witness:
  "parsed_type sample_parse ''alert frame'' = Some (JString ''alert'')
   \<and> handle_message sample_parse Suc ''alert frame'' 0 = Suc 0
   \<and> parsed_type sample_parse ''heartbeat frame'' = Some (JString ''heartbeat'')
   \<and> handle_message sample_parse Suc ''heartbeat frame'' 0 = 0
   \<and> parsed_type sample_parse ''not json'' = None
   \<and> handle_message sample_parse Suc ''not json'' 0 = 0"
proof -
  have a: "parsed_type sample_parse ''alert frame'' = Some (JString ''alert'')"
    and h: "parsed_type sample_parse ''heartbeat frame'' = Some (JString ''heartbeat'')"
    and n: "parsed_type sample_parse ''not json'' = None"
    by (simp_all add: parsed_type_def sample_parse_def)
  from push_is_refetch_signal [of sample_parse "''alert frame''" Suc 0]
       push_is_refetch_signal [of sample_parse "''heartbeat frame''" Suc 0]
       push_is_refetch_signal [of sample_parse "''not json''" Suc 0]
       a h n
  show ?thesis by simp
qed


section \<open>Results on the alert list\<close>

lemma mset_insert_by: "mset (insert_by cmp x ys) = add_mset x (mset ys)"
  by (induction ys) simp_all

lemma mset_sort_by: "mset (sort_by cmp xs) = mset xs"
  by (induction xs) (simp_all add: sort_by_def mset_insert_by)

lemma set_sort_by: "set (sort_by cmp xs) = set xs"
  using mset_sort_by [of cmp xs] by (metis set_mset_mset)

lemma startsWith_iff: "startsWith s t = (\<exists>after. s = t @ after)"
  by (induction s t rule: startsWith.induct) auto

lemma includes_str_iff: "includes_str s t = (\<exists>before after. s = before @ t @ after)"
proof (induction s)
  case Nil
  then show ?case by auto
next
  case (Cons c cs)
  show ?case
  proof
    assume "includes_str (c # cs) t"
    then consider "startsWith (c # cs) t" | "includes_str cs t" by auto
    then show "\<exists>before after. c # cs = before @ t @ after"
    proof cases
      case 1
      then obtain after where "c # cs = t @ after" by (auto simp: startsWith_iff)
      then have "c # cs = [] @ t @ after" by simp
      then show ?thesis by blast
    next
      case 2
      with Cons.IH obtain before after where "cs = before @ t @ after" by blast
      then have "c # cs = (c # before) @ t @ after" by simp
      then show ?thesis by blast
    qed
  next
    assume "\<exists>before after. c # cs = before @ t @ after"
    then obtain before after where eq: "c # cs = before @ t @ after" by blast
    show "includes_str (c # cs) t"
    proof (cases before)
      case Nil
      with eq have "startsWith (c # cs) t" by (auto simp: startsWith_iff)
      then show ?thesis by simp
    next
      case (Cons b bs)
      with eq have "cs = bs @ t @ after" by simp
      with Cons.IH have "includes_str cs t" by blast
      then show ?thesis by simp
    qed
  qed
qed

lemma keeps_active: "keeps ''active'' searchTerm a \<Longrightarrow> \<not> resolved a"
  by (auto simp: keeps_def split: if_splits)

lemma keeps_resolved: "keeps ''resolved'' searchTerm a \<Longrightarrow> resolved a"
  by (auto simp: keeps_def split: if_splits)

lemma keeps_search:
  "keeps filter_s searchTerm a \<Longrightarrow> searchTerm \<noteq> [] \<Longrightarrow>
   contains_ci (message a) searchTerm \<or> contains_ci (alert_type a) searchTerm
     \<or> contains_ci (severity a) searchTerm"
  by (auto simp: keeps_def contains_ci_def includes_str_iff Let_def split: if_splits)

lemma set_filteredAndSortedAlerts:
  "set (filteredAndSortedAlerts Date alerts_s filter_s searchTerm sortBy)
     = {a \<in> set alerts_s. keeps filter_s searchTerm a}"
  by (simp add: filteredAndSortedAlerts_def set_sort_by)

text \<open>
  C10. For every alert list, filter setting, search term and sort key, the displayed list
  is a sub-collection of the fetched alerts (as multisets: nothing is made up and nothing
  is shown more often than it was fetched); with the filter \<open>active\<close> every displayed alert
  has \<open>resolved = false\<close>, with the filter \<open>resolved\<close> every displayed alert has
  \<open>resolved = true\<close>, and with a non-empty search term every displayed alert contains the
  term, case-insensitively, in its message, its alert type or its severity.
\<close>

theorem filteredAndSortedAlerts_sound:
  "mset (filteredAndSortedAlerts Date alerts_s filter_s searchTerm sortBy) \<subseteq># mset alerts_s
   \<and> (filter_s = ''active'' \<longrightarrow>
        (\<forall>a \<in> set (filteredAndSortedAlerts Date alerts_s filter_s searchTerm sortBy).
           resolved a = False))
   \<and> (filter_s = ''resolved'' \<longrightarrow>
        (\<forall>a \<in> set (filteredAndSortedAlerts Date alerts_s filter_s searchTerm sortBy).
           resolved a = True))
   \<and> (searchTerm \<noteq> [] \<longrightarrow>
        (\<forall>a \<in> set (filteredAndSortedAlerts Date alerts_s filter_s searchTerm sortBy).
           contains_ci (message a) searchTerm \<or> contains_ci (alert_type a) searchTerm
           \<or> contains_ci (severity a) searchTerm))"
proof (intro conjI impI ballI)
  show "mset (filteredAndSortedAlerts Date alerts_s filter_s searchTerm sortBy)
          \<subseteq># mset alerts_s"
    by (simp add: filteredAndSortedAlerts_def mset_sort_by)
next
  fix a
  assume "filter_s = ''active''"
    and "a \<in> set (filteredAndSortedAlerts Date alerts_s filter_s searchTerm sortBy)"
  then show "resolved a = False"
    by (auto simp: set_filteredAndSortedAlerts dest: keeps_active)
next
  fix a
  assume "filter_s = ''resolved''"
    and "a \<in> set (filteredAndSortedAlerts Date alerts_s filter_s searchTerm sortBy)"
  then show "resolved a = True"
    by (auto simp: set_filteredAndSortedAlerts dest: keeps_resolved)
next
  fix a
  assume "searchTerm \<noteq> []"
    and "a \<in> set (filteredAndSortedAlerts Date alerts_s filter_s searchTerm sortBy)"
  then show "contains_ci (message a) searchTerm \<or> contains_ci (alert_type a) searchTerm
           \<or> contains_ci (severity a) searchTerm"
    by (auto simp: set_filteredAndSortedAlerts dest: keeps_search)
qed

lemma display_active_HIGH:
  "filteredAndSortedAlerts no_dates [alert_hot, alert_low] ''active'' ''HIGH'' ''newest''
     = [alert_hot]"
  by code_simp

lemma display_resolved_Low:
  "filteredAndSortedAlerts no_dates [alert_hot, alert_low] ''resolved'' ''Low'' ''severity''
     = [alert_low]"
  by code_simp

text \<open>
  Two fetched alerts, one open and one resolved: the filter \<open>active\<close> with the term \<open>HIGH\<close>
  displays the open one, the filter \<open>resolved\<close> with the term \<open>Low\<close> the resolved one.
\<close>

theorem filteredAndSortedAlerts_sound_witness:
  "alert_hot \<in> set (filteredAndSortedAlerts no_dates [alert_hot, alert_low]
                       ''active'' ''HIGH'' ''newest'')
   \<and> resolved alert_hot = False
   \<and> (contains_ci (message alert_hot) ''HIGH'' \<or> contains_ci (alert_type alert_hot) ''HIGH''
        \<or> contains_ci (severity alert_hot) ''HIGH'')
   \<and> alert_low \<in> set (filteredAndSortedAlerts no_dates [alert_hot, alert_low]
                         ''resolved'' ''Low'' ''severity'')
   \<and> resolved alert_low = True"
  using filteredAndSortedAlerts_sound
          [of no_dates "[alert_hot, alert_low]" "''active''" "''HIGH''" "''newest''"]
        filteredAndSortedAlerts_sound
          [of no_dates "[alert_hot, alert_low]" "''resolved''" "''Low''" "''severity''"]
  by (simp add: display_active_HIGH display_resolved_Low)


end
